theory Spec2Isabelle
  imports Main
begin

section \<open>Python values shared by the two scripts\<close>

text \<open>
  The exceptions the modelled code can raise. A function that can raise returns
  \<open>py_error + 'a\<close>, with \<open>Inl\<close> for the exception.
\<close>

datatype py_error = KeyError | ValueError

section \<open>specification/scripts/check\_spec\_links.py\<close>

subsection \<open>Configuration constants\<close>

definition EXTRA_DEFINES :: "string list" where
  "EXTRA_DEFINES = [''XRAPI_ATTR'', ''XRAPI_CALL'', ''XRAPI_PTR'', ''XR_NO_STDINT_H'']"

definition SYSTEM_TYPES :: "string set" where
  "SYSTEM_TYPES = set [''void'', ''char'', ''float'', ''size_t'',
                       ''intptr_t'', ''uintptr_t'',
                       ''int8_t'', ''uint8_t'',
                       ''int16_t'', ''uint16_t'',
                       ''int32_t'', ''uint32_t'',
                       ''int64_t'', ''uint64_t'']"

text \<open>
  Modelled from the spec: the enumeration \<open>MessageId\<close> (module spec\_tools.shared) is
  not among the sources. The script names three of its members; every other member of
  the "fixed enumerated catalog of diagnostic kinds" is \<open>OTHER\<close> with its name, and
  the catalogue itself is a parameter (\<open>others\<close>) of what iterates over the enumeration.
\<close>

datatype MessageId = LEGACY | REFPAGE_MISSING | REFPAGE_BLOCK | OTHER string

definition MessageId_members :: "string list \<Rightarrow> MessageId list" where
  "MessageId_members others = [LEGACY, REFPAGE_MISSING, REFPAGE_BLOCK] @ map OTHER others"

definition DEFAULT_DISABLED_MESSAGES :: "MessageId set" where
  "DEFAULT_DISABLED_MESSAGES = set [REFPAGE_MISSING]"

subsection \<open>The entity database\<close>

text \<open>
  An XML element of the registry, as far as the script reads it: its attributes.
  \<open>elem.get(key)\<close> is the attribute's value, or None.
\<close>

record Element =
  attrib :: "(string \<times> string) list"

definition elem_get :: "Element \<Rightarrow> string \<Rightarrow> string option" where
  "elem_get e key = map_of (attrib e) key"

record TypeInfo =
  elem :: Element

text \<open>
  Modelled from the spec: the class \<open>EntityDatabase\<close> (module spec\_tools.entity\_db)
  is not among the sources. An entity has a macro kind, a category, the \<open>generates\<close>
  flag (None when the caller leaves it to the database) and an optional registry element;
  the database maps each name to one entity, keeps the category-to-macro registrations
  (category, macro kind, link flag) and the names whose registration failed.
\<close>

record EntityData =
  entity_macro :: string
  entity_category :: string
  entity_generates :: "bool option"
  entity_elem :: "Element option"

record EntityDatabase =
  entities :: "string \<rightharpoonup> EntityData"
  registrations :: "(string \<times> string \<times> bool) list"
  conflicts :: "string list"

text \<open>
  Modelled from the spec: \<open>addMacro(macroKind, categories, isLink)\<close> "registers that
  macroKind is the valid way to reference entities in any of categories".
\<close>

definition addMacro :: "EntityDatabase \<Rightarrow> string \<Rightarrow> string list \<Rightarrow> bool \<Rightarrow> EntityDatabase" where
  "addMacro db macro categories link =
     db\<lparr>registrations := registrations db @ map (\<lambda>c. (c, macro, link)) categories\<rparr>"

definition macros_of_category :: "EntityDatabase \<Rightarrow> string \<Rightarrow> string list" where
  "macros_of_category db c = map (\<lambda>r. fst (snd r)) (filter (\<lambda>r. fst r = c) (registrations db))"

text \<open>
  Modelled from the spec: \<open>addEntity(name, macroKind, category, generates, sourceElement?)\<close>
  "registers an entity, failing (logged, not fatal) if name is already registered with a
  conflicting category".
\<close>

definition addEntity ::
  "EntityDatabase \<Rightarrow> string \<Rightarrow> string \<Rightarrow> string \<Rightarrow> bool option \<Rightarrow> Element option \<Rightarrow> EntityDatabase" where
  "addEntity db name macro category generates el =
     (let new = \<lparr>entity_macro = macro, entity_category = category,
                  entity_generates = generates, entity_elem = el\<rparr>
      in case entities db name of
           None \<Rightarrow> db\<lparr>entities := (entities db)(name \<mapsto> new)\<rparr>
         | Some old \<Rightarrow>
             if entity_category old = category
             then db\<lparr>entities := (entities db)(name \<mapsto> new)\<rparr>
             else db\<lparr>conflicts := conflicts db @ [name]\<rparr>)"

subsection \<open>XREntityDatabase\<close>

definition getNamePrefix :: "EntityDatabase \<Rightarrow> string" where
  "getNamePrefix db = ''xr''"

definition getPlatformRequires :: "EntityDatabase \<Rightarrow> string" where
  "getPlatformRequires db = ''openxr_platform_defines''"

definition getSystemTypes :: "EntityDatabase \<Rightarrow> string set" where
  "getSystemTypes db = SYSTEM_TYPES"

definition populateMacros :: "EntityDatabase \<Rightarrow> EntityDatabase" where
  "populateMacros db =
     addMacro (addMacro db ''elink'' [''enums'', ''flags''] True) ''basetype'' [''basetypes''] True"

text \<open>The loop \<open>for name in EXTRA_DEFINES\<close>, in the tuple's order.\<close>

definition populateEntities :: "EntityDatabase \<Rightarrow> EntityDatabase" where
  "populateEntities db =
     fold (\<lambda>name d. addEntity d name ''dlink'' ''configdefines'' (Some False) None) EXTRA_DEFINES db"

text \<open>
  \<open>handleType\<close> extends the superclass method, which is not among the sources:
  \<open>super_handleType\<close> stands for it, and may raise.
\<close>

definition handleType ::
  "(EntityDatabase \<Rightarrow> string \<Rightarrow> TypeInfo \<Rightarrow> 'r \<Rightarrow> py_error + EntityDatabase) \<Rightarrow>
   EntityDatabase \<Rightarrow> string \<Rightarrow> TypeInfo \<Rightarrow> 'r \<Rightarrow> py_error + EntityDatabase" where
  "handleType super_handleType db name info requires =
     (let cat = elem_get (elem info) ''category''
      in if cat = Some ''bitmask''
         then Inr (addEntity db name ''elink'' ''flags'' None (Some (elem info)))
         else super_handleType db name info requires)"

subsection \<open>The per-document scan state\<close>

text \<open>
  Modelled from the spec: the enumeration \<open>BlockType\<close> and the class
  \<open>MacroCheckerFile\<close> (module spec\_tools.macro\_checker\_file) are not among the
  sources. A block has a type ("ordinary / code / reference-page-like / other structural
  kinds"), the delimiter that opened it, a context and, for reference-page blocks, the
  entity name \<open>refpage\<close>. A diagnostic is the record "kind, severity, locationContext,
  messageLines, group". The scan state holds the reference-page context
  (\<open>current_ref_page\<close>, \<open>in_ref_page\<close>, \<open>prev_line_ref_page_tag\<close>), the block stack
  (innermost block last) and the diagnostics emitted so far. The script clears
  \<open>prev_line_ref_page_tag\<close> with None; when set it holds whatever object the tag parser
  stores (type \<open>'tag\<close>), and an object is true in a Python condition.
\<close>

datatype BlockType = ORDINARY | CODE | REF_PAGE_LIKE | OTHER_BLOCK

record Block =
  block_type :: BlockType
  delimiter :: "string option"
  block_context :: "string option"
  refpage :: "string option"

datatype Severity = ERROR | WARNING

record Message =
  message_id :: MessageId
  severity :: Severity
  location :: nat
  message :: "string list"
  msg_group :: "string option"

record 'tag MacroCheckerFile =
  current_ref_page :: "string option"
  in_ref_page :: bool
  prev_line_ref_page_tag :: "'tag option"
  block_stack :: "Block list"
  messages :: "Message list"
  lineNum :: nat

text \<open>
  Modelled from the spec: \<open>error\<close> appends one error-level diagnostic of the given kind
  at the current location ("diagnostics are appended to an output sequence associated with
  the document"); a kind that is not enabled is recorded all the same.
\<close>

definition error ::
  "'tag MacroCheckerFile \<Rightarrow> MessageId \<Rightarrow> string list \<Rightarrow> string option \<Rightarrow> 'tag MacroCheckerFile" where
  "error s mid lines grp =
     s\<lparr>messages := messages s @
          [\<lparr>message_id = mid, severity = ERROR, location = lineNum s,
            message = lines, msg_group = grp\<rparr>]\<rparr>"

text \<open>Modelled from the spec: \<open>pushBlock\<close> pushes one block on the stack.\<close>

definition pushBlock ::
  "'tag MacroCheckerFile \<Rightarrow> BlockType \<Rightarrow> string option \<Rightarrow> string option \<Rightarrow> string option \<Rightarrow>
   'tag MacroCheckerFile" where
  "pushBlock s bt rp ctx delim =
     s\<lparr>block_stack := block_stack s @
          [\<lparr>block_type = bt, delimiter = delim, block_context = ctx, refpage = rp\<rparr>]\<rparr>"

text \<open>
  Modelled from the spec: the superclass's \<open>processBlockOpen\<close>. "Open, well-formed
  reference-page block: [...] the previous line carried a valid reference-page tag. Pushes
  a block with refpage set to the tagged entity name; sets inRefPage = true." "Open, any
  other block type: pushed unconditionally with its declared type/context/delimiter".
\<close>

definition MacroCheckerFile_processBlockOpen ::
  "'tag MacroCheckerFile \<Rightarrow> BlockType \<Rightarrow> string option \<Rightarrow> string option \<Rightarrow>
   py_error + 'tag MacroCheckerFile" where
  "MacroCheckerFile_processBlockOpen s bt ctx delim =
     (if bt = REF_PAGE_LIKE \<and> prev_line_ref_page_tag s \<noteq> None
      then Inr ((pushBlock s bt (current_ref_page s) ctx delim)\<lparr>in_ref_page := True\<rparr>)
      else Inr (pushBlock s bt None ctx delim))"

subsection \<open>XRMacroCheckerFile\<close>

definition missing_refpage_tag :: string where
  "missing_refpage_tag = ''?missing-refpage-tag?''"

definition refpage_block_message :: "string list" where
  "refpage_block_message =
     [''Found a line containing only -- outside of a reference page block, not preceded by a reference page tag,'',
      ''Pretending there was one and opening refpage block for unknown entity anyway, for more readable messages.'']"

text \<open>
  \<open>processBlockOpen\<close> extends the superclass method, \<open>super_processBlockOpen\<close> here.
  The four statements of the recovery branch are the four updates, in the source's order.
\<close>

definition processBlockOpen ::
  "('tag MacroCheckerFile \<Rightarrow> BlockType \<Rightarrow> string option \<Rightarrow> string option \<Rightarrow>
      py_error + 'tag MacroCheckerFile) \<Rightarrow>
   'tag MacroCheckerFile \<Rightarrow> BlockType \<Rightarrow> string option \<Rightarrow> string option \<Rightarrow>
   py_error + 'tag MacroCheckerFile" where
  "processBlockOpen super_processBlockOpen s bt ctx delim =
     (if bt = REF_PAGE_LIKE \<and> prev_line_ref_page_tag s = None
      then
        let s1 = error s REFPAGE_BLOCK refpage_block_message None;
            s2 = s1\<lparr>current_ref_page := Some missing_refpage_tag\<rparr>;
            s3 = s2\<lparr>prev_line_ref_page_tag := None\<rparr>;
            s4 = s3\<lparr>in_ref_page := True\<rparr>
        in Inr (pushBlock s4 bt (current_ref_page s4) ctx delim)
      else super_processBlockOpen s bt ctx delim)"

definition computeExpectedRefPageFromInclude :: "'tag MacroCheckerFile \<Rightarrow> string \<Rightarrow> string" where
  "computeExpectedRefPageFromInclude s entity = entity"

subsection \<open>The main program\<close>

text \<open>
  \<open>set(MessageId)\<close>, then \<open>available_messages.remove(MessageId.LEGACY)\<close>, which
  raises KeyError when the member is not in the set.
\<close>

definition available_messages :: "string list \<Rightarrow> py_error + MessageId set" where
  "available_messages others =
     (let available = set (MessageId_members others)
      in if LEGACY \<in> available then Inr (available - {LEGACY}) else Inl KeyError)"

definition default_enabled_messages :: "string list \<Rightarrow> py_error + MessageId set" where
  "default_enabled_messages others =
     (case available_messages others of
        Inl e \<Rightarrow> Inl e
      | Inr available \<Rightarrow> Inr (available - DEFAULT_DISABLED_MESSAGES))"

section \<open>src/conformance/framework/pbr/check-offsets.py\<close>

subsection \<open>Python's string operations\<close>

text \<open>
  Strings are ASCII text, as the reflection dump of glslangValidator is. \<open>isspace\<close> holds
  of the ASCII characters that \<open>str.isspace\<close> accepts; \<open>strip\<close> is \<open>str.strip()\<close>.
\<close>

definition isspace :: "char \<Rightarrow> bool" where
  "isspace c = (c = CHR 0x09 \<or> c = CHR 0x0A \<or> c = CHR 0x0B \<or> c = CHR 0x0C \<or> c = CHR 0x0D
                \<or> c = CHR 0x1C \<or> c = CHR 0x1D \<or> c = CHR 0x1E \<or> c = CHR 0x1F \<or> c = CHR '' '')"

definition strip :: "string \<Rightarrow> string" where
  "strip s = rev (dropWhile isspace (rev (dropWhile isspace s)))"

definition startswith :: "string \<Rightarrow> string \<Rightarrow> bool" where
  "startswith s sep = (take (length sep) s = sep)"

text \<open>
  The first occurrence of \<open>sep\<close> in a string: what stands before it and what stands
  after it. \<open>str_partition\<close> is \<open>str.partition(sep)\<close>, which returns the string and two
  empty strings when the separator does not occur, and \<open>str_split\<close> is \<open>str.split(sep)\<close>.
  The script's separators are non-empty constants (Python raises ValueError on an empty
  separator, which the script never passes).
\<close>

fun partition_at :: "string \<Rightarrow> string \<Rightarrow> (string \<times> string) option" where
  "partition_at sep [] = (if sep = [] then Some ([], []) else None)"
| "partition_at sep (c # cs) =
     (if startswith (c # cs) sep then Some ([], drop (length sep) (c # cs))
      else case partition_at sep cs of
             None \<Rightarrow> None
           | Some (before, after) \<Rightarrow> Some (c # before, after))"

definition str_partition :: "string \<Rightarrow> string \<Rightarrow> string \<times> string \<times> string" where
  "str_partition s sep =
     (case partition_at sep s of
        None \<Rightarrow> (s, [], [])
      | Some (before, after) \<Rightarrow> (before, sep, after))"

function str_split :: "string \<Rightarrow> string \<Rightarrow> string list" where
  "str_split s sep =
     (if sep = [] then [s]
      else case partition_at sep s of
             None \<Rightarrow> [s]
           | Some (before, after) \<Rightarrow> before # str_split after sep)"
  by pat_completeness auto
termination
proof (relation "measure (\<lambda>(s, sep). length s)")
  show "wf (measure (\<lambda>(s, sep). length s))" by simp
next
  fix s sep :: string and found before after
  assume sep: "sep \<noteq> []" and found: "partition_at sep s = Some found"
    and pair: "(before, after) = found"
  have "partition_at sep t = Some (b, after) \<Longrightarrow> length after < length t" for t b
    using sep by (induction t arbitrary: b) (auto split: if_splits option.splits)
  with found pair show "((after, sep), (s, sep)) \<in> measure (\<lambda>(s, sep). length s)"
    by auto
qed

declare str_split.simps [simp del]

subsection \<open>Python's int(text, base)\<close>

text \<open>
  The value of a character as a digit (0-9, a-z and A-Z count up to 35), and the digits of
  a literal after its first one: digits, with single underscores between digits.
\<close>

definition digit_value :: "char \<Rightarrow> nat option" where
  "digit_value c =
     (let n = (of_char c :: nat)
      in if 48 \<le> n \<and> n \<le> 57 then Some (n - 48)
         else if 97 \<le> n \<and> n \<le> 122 then Some (n - 87)
         else if 65 \<le> n \<and> n \<le> 90 then Some (n - 55)
         else None)"

definition digit :: "nat \<Rightarrow> char \<Rightarrow> nat option" where
  "digit base c =
     (case digit_value c of None \<Rightarrow> None | Some v \<Rightarrow> if v < base then Some v else None)"

fun digits :: "nat \<Rightarrow> string \<Rightarrow> nat \<Rightarrow> nat option" where
  "digits base [] acc = Some acc"
| "digits base [c] acc =
     (case digit base c of None \<Rightarrow> None | Some v \<Rightarrow> Some (acc * base + v))"
| "digits base (c # d # ds) acc =
     (if c = CHR ''_''
      then case digit base d of None \<Rightarrow> None | Some v \<Rightarrow> digits base ds (acc * base + v)
      else case digit base c of None \<Rightarrow> None | Some v \<Rightarrow> digits base (d # ds) (acc * base + v))"

text \<open>
  \<open>int(text, base)\<close> for the two bases the script uses, 10 and 16: surrounding
  whitespace, an optional sign, for base 16 an optional 0x prefix (one underscore may
  follow it), then the digits. A malformed literal raises ValueError, and so does a
  decimal literal of more than \<open>int_max_str_digits\<close> digits (the interpreter's default
  limit).
\<close>

definition int_max_str_digits :: nat where
  "int_max_str_digits = 4300"

definition py_int :: "string \<Rightarrow> nat \<Rightarrow> py_error + int" where
  "py_int text base =
     (let s = strip text;
          negative = (take 1 s = ''-'');
          s1 = (if take 1 s = ''-'' \<or> take 1 s = ''+'' then drop 1 s else s);
          s2 = (if base = 16 \<and> (take 2 s1 = ''0x'' \<or> take 2 s1 = ''0X'')
                then (if take 1 (drop 2 s1) = ''_'' then drop 3 s1 else drop 2 s1)
                else s1)
      in if base = 10 \<and> int_max_str_digits < length (filter (\<lambda>c. c \<noteq> CHR ''_'') s2)
         then Inl ValueError
         else case s2 of
                [] \<Rightarrow> Inl ValueError
              | c # cs \<Rightarrow>
                  (case digit base c of
                     None \<Rightarrow> Inl ValueError
                   | Some v \<Rightarrow>
                       (case digits base cs v of
                          None \<Rightarrow> Inl ValueError
                        | Some n \<Rightarrow> Inr (if negative then - int n else int n))))"

subsection \<open>Python's list operations\<close>

text \<open>
  \<open>xs.index(x, start)\<close>: the first position at or after \<open>start\<close> that holds \<open>x\<close>, or
  ValueError. \<open>xs[i:j]\<close>: a negative bound counts from the end, every bound is clamped to
  the list, and the slice is empty when the bounds cross; \<open>j\<close> is None in \<open>xs[i:]\<close>.
\<close>

fun first_index :: "'a \<Rightarrow> 'a list \<Rightarrow> nat option" where
  "first_index x [] = None"
| "first_index x (y # ys) = (if y = x then Some 0 else map_option Suc (first_index x ys))"

definition list_index :: "'a list \<Rightarrow> 'a \<Rightarrow> nat \<Rightarrow> py_error + nat" where
  "list_index xs x start =
     (case first_index x (drop start xs) of
        None \<Rightarrow> Inl ValueError
      | Some i \<Rightarrow> Inr (start + i))"

definition slice_bound :: "nat \<Rightarrow> int \<Rightarrow> nat" where
  "slice_bound n k = (if k < 0 then nat (max 0 (int n + k)) else min n (nat k))"

definition py_slice :: "'a list \<Rightarrow> int \<Rightarrow> int option \<Rightarrow> 'a list" where
  "py_slice xs i j =
     (let n = length xs;
          lo = slice_bound n i;
          hi = (case j of None \<Rightarrow> n | Some k \<Rightarrow> slice_bound n k)
      in take (hi - lo) (drop lo xs))"

subsection \<open>Reflection data\<close>

record GlslObjectReflectionData =
  name :: string
  offset :: int
  data_type :: int
  size' :: int
  index :: int
  binding :: int
  stages :: int
  counter :: "int option"
  num_members :: "int option"
  array_stride :: "int option"
  top_level_array_stride :: "int option"

text \<open>A statement that may raise, followed by the rest of the function.\<close>

definition try_bind :: "py_error + 'a \<Rightarrow> ('a \<Rightarrow> py_error + 'b) \<Rightarrow> py_error + 'b" where
  "try_bind r f = (case r of Inl e \<Rightarrow> Inl e | Inr x \<Rightarrow> f x)"

text \<open>
  \<open>dict(field.split(" ") for field in ...)\<close>: every element must have exactly two
  items, else ValueError; a later key replaces an earlier one.
\<close>

fun dict_of_fields :: "string list \<Rightarrow> (string \<rightharpoonup> string) \<Rightarrow> py_error + (string \<rightharpoonup> string)" where
  "dict_of_fields [] d = Inr d"
| "dict_of_fields (field # rest) d =
     (case str_split field '' '' of
        [k, v] \<Rightarrow> dict_of_fields rest (d(k \<mapsto> v))
      | _ \<Rightarrow> Inl ValueError)"

text \<open>
  \<open>int(fields[key], base)\<close>, which raises KeyError when the key is missing, and the
  pattern \<open>v = fields.get(key); if v is not None: ... = int(v)\<close>.
\<close>

definition required_int :: "(string \<rightharpoonup> string) \<Rightarrow> string \<Rightarrow> nat \<Rightarrow> py_error + int" where
  "required_int d key base =
     (case d key of None \<Rightarrow> Inl KeyError | Some text \<Rightarrow> py_int text base)"

definition optional_int :: "(string \<rightharpoonup> string) \<Rightarrow> string \<Rightarrow> py_error + int option" where
  "optional_int d key =
     (case d key of
        None \<Rightarrow> Inr None
      | Some text \<Rightarrow> try_bind (py_int text 10) (\<lambda>v. Inr (Some v)))"

text \<open>
  The name a reflection line gives its entry: what stands before the first colon and
  space of the stripped line.
\<close>

definition line_name :: "string \<Rightarrow> string" where
  "line_name line = fst (str_partition (strip line) '': '')"

text \<open>
  \<open>parse_reflection_line\<close>. The test \<open>all_fields is None\<close> of the source never holds
  (\<open>partition\<close> returns strings), so its raise is no branch here.
\<close>

definition parse_reflection_line :: "string \<Rightarrow> py_error + GlslObjectReflectionData" where
  "parse_reflection_line line =
     (case str_partition (strip line) '': '' of
        (name', _, all_fields) \<Rightarrow>
          try_bind (dict_of_fields (str_split all_fields '', '') Map.empty) (\<lambda>fields'.
          try_bind (required_int fields' ''offset'' 10) (\<lambda>offset'.
          try_bind (required_int fields' ''type'' 16) (\<lambda>data_type'.
          try_bind (required_int fields' ''size'' 10) (\<lambda>size''.
          try_bind (required_int fields' ''index'' 10) (\<lambda>index'.
          try_bind (required_int fields' ''binding'' 10) (\<lambda>binding'.
          try_bind (required_int fields' ''stages'' 10) (\<lambda>stages'.
          try_bind (optional_int fields' ''counter'') (\<lambda>counter'.
          try_bind (optional_int fields' ''numMembers'') (\<lambda>num_members'.
          try_bind (optional_int fields' ''arrayStride'') (\<lambda>array_stride'.
          try_bind (optional_int fields' ''topLevelArrayStride'') (\<lambda>top_level_array_stride'.
            Inr \<lparr>name = name', offset = offset', data_type = data_type', size' = size'',
                 index = index', binding = binding', stages = stages', counter = counter',
                 num_members = num_members', array_stride = array_stride',
                 top_level_array_stride = top_level_array_stride'\<rparr>))))))))))))"

text \<open>
  The loop \<open>for line in section_lines: data = parse_reflection_line(line);
  ret[data.name] = data\<close>, which both functions below run on their slice.
\<close>

fun parse_section ::
  "string list \<Rightarrow> (string \<rightharpoonup> GlslObjectReflectionData) \<Rightarrow>
   py_error + (string \<rightharpoonup> GlslObjectReflectionData)" where
  "parse_section [] ret = Inr ret"
| "parse_section (line # rest) ret =
     (case parse_reflection_line line of
        Inl e \<Rightarrow> Inl e
      | Inr data \<Rightarrow> parse_section rest (ret(name data \<mapsto> data)))"

text \<open>
  \<open>process_reflection_data_section\<close>: the \<open>try\<close> around the search for the empty line
  catches ValueError only.
\<close>

definition process_reflection_data_section ::
  "string list \<Rightarrow> string \<Rightarrow> py_error + (string \<rightharpoonup> GlslObjectReflectionData)" where
  "process_reflection_data_section reflection_lines heading =
     try_bind (list_index reflection_lines heading 0) (\<lambda>start_idx.
     try_bind (case list_index reflection_lines '''' (start_idx + 1) of
                 Inl ValueError \<Rightarrow> Inr None
               | Inl e \<Rightarrow> Inl e
               | Inr i \<Rightarrow> Inr (Some i)) (\<lambda>end_idx.
       let section_lines =
             (case end_idx of
                None \<Rightarrow> py_slice reflection_lines (int start_idx + 1) None
              | Some e \<Rightarrow> py_slice reflection_lines (int start_idx + 1) (Some (int e - 1)))
       in parse_section section_lines Map.empty))"

record ReflectionData =
  uniforms :: "string \<rightharpoonup> GlslObjectReflectionData"

text \<open>
  \<open>compile_and_get_reflection_data\<close>, from the list \<open>lines\<close> on: the stripped, decoded
  lines of the validator's output (the call of the validator is the function's input).
\<close>

definition compile_and_get_reflection_data :: "string list \<Rightarrow> py_error + ReflectionData" where
  "compile_and_get_reflection_data lines =
     try_bind (list_index lines ''Uniform reflection:'' 0) (\<lambda>start_uniform.
     try_bind (list_index lines '''' (start_uniform + 1)) (\<lambda>end_uniform.
       let uniform_lines = py_slice lines (int start_uniform + 1) (Some (int end_uniform - 1))
       in try_bind (parse_section uniform_lines Map.empty) (\<lambda>u. Inr \<lparr>uniforms = u\<rparr>)))"

section \<open>Properties of check\_spec\_links.py\<close>

subsection \<open>What a registration changes\<close>

lemma addEntity_other:
  "n \<noteq> tname \<Longrightarrow> entities (addEntity db tname m c g e) n = entities db n"
  by (simp add: addEntity_def Let_def split: option.splits)

lemma addEntity_same:
  "entities (addEntity db tname m c g e) tname =
     (case entities db tname of
        None \<Rightarrow> Some \<lparr>entity_macro = m, entity_category = c, entity_generates = g, entity_elem = e\<rparr>
      | Some old \<Rightarrow>
          if entity_category old = c
          then Some \<lparr>entity_macro = m, entity_category = c, entity_generates = g, entity_elem = e\<rparr>
          else Some old)"
  by (simp add: addEntity_def Let_def split: option.splits)

lemma addEntity_registrations:
  "registrations (addEntity db tname m c g e) = registrations db"
  by (simp add: addEntity_def Let_def split: option.splits)

lemma populateEntities_unfold:
  "populateEntities db =
     addEntity (addEntity (addEntity (addEntity db
       ''XRAPI_ATTR'' ''dlink'' ''configdefines'' (Some False) None)
       ''XRAPI_CALL'' ''dlink'' ''configdefines'' (Some False) None)
       ''XRAPI_PTR'' ''dlink'' ''configdefines'' (Some False) None)
       ''XR_NO_STDINT_H'' ''dlink'' ''configdefines'' (Some False) None"
  by (simp add: populateEntities_def EXTRA_DEFINES_def)

subsection \<open>The entity database\<close>

text \<open>
  C5: \<open>getSystemTypes\<close> returns the same set for every database, and that set has
  exactly the fourteen names void, char, float, size\_t, intptr\_t, uintptr\_t, int8\_t,
  uint8\_t, int16\_t, uint16\_t, int32\_t, uint32\_t, int64\_t and uint64\_t.
\<close>

theorem getSystemTypes_fixed:
  "getSystemTypes db = getSystemTypes db'
   \<and> getSystemTypes db =
       {''void'', ''char'', ''float'', ''size_t'', ''intptr_t'', ''uintptr_t'',
        ''int8_t'', ''uint8_t'', ''int16_t'', ''uint16_t'', ''int32_t'', ''uint32_t'',
        ''int64_t'', ''uint64_t''}
   \<and> card (getSystemTypes db) = 14"
  by (simp add: getSystemTypes_def SYSTEM_TYPES_def)

text \<open>
  C6: \<open>populateEntities\<close> is four calls of \<open>addEntity\<close>, one for each of XRAPI\_ATTR,
  XRAPI\_CALL, XRAPI\_PTR and XR\_NO\_STDINT\_H, with macro kind dlink, category
  configdefines and generates = False. Afterwards each of these names is registered with
  exactly those attributes (unless the database already held the name under another
  category, which \<open>addEntity\<close> refuses), the entry of every other name is what it was, and
  the macro registrations are unchanged.
\<close>

theorem populateEntities_extra_defines:
  "populateEntities db =
     addEntity (addEntity (addEntity (addEntity db
       ''XRAPI_ATTR'' ''dlink'' ''configdefines'' (Some False) None)
       ''XRAPI_CALL'' ''dlink'' ''configdefines'' (Some False) None)
       ''XRAPI_PTR'' ''dlink'' ''configdefines'' (Some False) None)
       ''XR_NO_STDINT_H'' ''dlink'' ''configdefines'' (Some False) None
   \<and> (n \<in> set EXTRA_DEFINES \<longrightarrow>
        entities (populateEntities db) n =
          (case entities db n of
             None \<Rightarrow> Some \<lparr>entity_macro = ''dlink'', entity_category = ''configdefines'',
                            entity_generates = Some False, entity_elem = None\<rparr>
           | Some old \<Rightarrow>
               if entity_category old = ''configdefines''
               then Some \<lparr>entity_macro = ''dlink'', entity_category = ''configdefines'',
                           entity_generates = Some False, entity_elem = None\<rparr>
               else Some old))
   \<and> (n \<notin> set EXTRA_DEFINES \<longrightarrow> entities (populateEntities db) n = entities db n)
   \<and> registrations (populateEntities db) = registrations db"
proof (intro conjI impI)
  show "populateEntities db =
     addEntity (addEntity (addEntity (addEntity db
       ''XRAPI_ATTR'' ''dlink'' ''configdefines'' (Some False) None)
       ''XRAPI_CALL'' ''dlink'' ''configdefines'' (Some False) None)
       ''XRAPI_PTR'' ''dlink'' ''configdefines'' (Some False) None)
       ''XR_NO_STDINT_H'' ''dlink'' ''configdefines'' (Some False) None"
    by (rule populateEntities_unfold)
next
  assume "n \<in> set EXTRA_DEFINES"
  then consider "n = ''XRAPI_ATTR''" | "n = ''XRAPI_CALL''" | "n = ''XRAPI_PTR''"
    | "n = ''XR_NO_STDINT_H''"
    by (auto simp: EXTRA_DEFINES_def)
  then show "entities (populateEntities db) n =
          (case entities db n of
             None \<Rightarrow> Some \<lparr>entity_macro = ''dlink'', entity_category = ''configdefines'',
                            entity_generates = Some False, entity_elem = None\<rparr>
           | Some old \<Rightarrow>
               if entity_category old = ''configdefines''
               then Some \<lparr>entity_macro = ''dlink'', entity_category = ''configdefines'',
                           entity_generates = Some False, entity_elem = None\<rparr>
               else Some old)"
    by cases (simp_all add: populateEntities_unfold addEntity_other addEntity_same)
next
  assume "n \<notin> set EXTRA_DEFINES"
  then show "entities (populateEntities db) n = entities db n"
    by (simp add: populateEntities_unfold EXTRA_DEFINES_def addEntity_other)
next
  show "registrations (populateEntities db) = registrations db"
    by (simp add: populateEntities_unfold addEntity_registrations)
qed

text \<open>
  On the empty database: XRAPI\_PTR is registered as a dlink config define that generates
  no page, and a name outside the tuple, XrPosef, stays unknown.
\<close>

theorem populateEntities_extra_defines_witness:
  "''XRAPI_PTR'' \<in> set EXTRA_DEFINES
   \<and> entities (populateEntities \<lparr>entities = Map.empty, registrations = [], conflicts = []\<rparr>)
        ''XRAPI_PTR''
      = Some \<lparr>entity_macro = ''dlink'', entity_category = ''configdefines'',
               entity_generates = Some False, entity_elem = None\<rparr>
   \<and> ''XrPosef'' \<notin> set EXTRA_DEFINES
   \<and> entities (populateEntities \<lparr>entities = Map.empty, registrations = [], conflicts = []\<rparr>)
        ''XrPosef'' = None"
proof -
  let ?db = "\<lparr>entities = Map.empty, registrations = [], conflicts = []\<rparr>"
  have a: "''XRAPI_PTR'' \<in> set EXTRA_DEFINES" by (simp add: EXTRA_DEFINES_def)
  have b: "''XrPosef'' \<notin> set EXTRA_DEFINES" by (simp add: EXTRA_DEFINES_def)
  have c: "entities (populateEntities ?db) ''XRAPI_PTR''
      = Some \<lparr>entity_macro = ''dlink'', entity_category = ''configdefines'',
               entity_generates = Some False, entity_elem = None\<rparr>"
    using populateEntities_extra_defines [of ?db "''XRAPI_PTR''", THEN conjunct2, THEN conjunct1,
        THEN mp, OF a]
    by simp
  have d: "entities (populateEntities ?db) ''XrPosef'' = None"
    using populateEntities_extra_defines [of ?db "''XrPosef''", THEN conjunct2, THEN conjunct2,
        THEN conjunct1, THEN mp, OF b]
    by simp
  from a b c d show ?thesis by blast
qed

text \<open>
  C2: when the element's category attribute is bitmask, \<open>handleType\<close> registers the name
  through \<open>addEntity\<close> with macro kind elink and category flags: a name the database did
  not hold is then an elink entity of category flags backed by the element, and whatever
  entry the call changes is such an entity, never a tlink one. With any other category
  (or none) \<open>handleType\<close> is the superclass method. \<open>populateMacros\<close> registers elink
  for the category flags.
\<close>

theorem handleType_bitmask_as_flags:
  "(elem_get (elem info) ''category'' = Some ''bitmask'' \<longrightarrow>
      handleType super_handleType db tname info requires
        = Inr (addEntity db tname ''elink'' ''flags'' None (Some (elem info)))
      \<and> (entities db tname = None \<longrightarrow>
           entities (addEntity db tname ''elink'' ''flags'' None (Some (elem info))) tname
             = Some \<lparr>entity_macro = ''elink'', entity_category = ''flags'',
                      entity_generates = None, entity_elem = Some (elem info)\<rparr>)
      \<and> (\<forall>n e. entities (addEntity db tname ''elink'' ''flags'' None (Some (elem info))) n = Some e
                 \<and> entities db n \<noteq> Some e
             \<longrightarrow> n = tname \<and> entity_macro e = ''elink'' \<and> entity_category e = ''flags''
                 \<and> entity_macro e \<noteq> ''tlink''))
   \<and> (elem_get (elem info) ''category'' \<noteq> Some ''bitmask'' \<longrightarrow>
        handleType super_handleType db tname info requires
          = super_handleType db tname info requires)
   \<and> ''elink'' \<in> set (macros_of_category (populateMacros db) ''flags'')
   \<and> (macros_of_category db ''flags'' = [] \<longrightarrow>
        macros_of_category (populateMacros db) ''flags'' = [''elink''])"
proof (intro conjI impI allI)
  assume "elem_get (elem info) ''category'' = Some ''bitmask''"
  then show "handleType super_handleType db tname info requires
        = Inr (addEntity db tname ''elink'' ''flags'' None (Some (elem info)))"
    by (simp add: handleType_def)
next
  assume "entities db tname = None"
  then show "entities (addEntity db tname ''elink'' ''flags'' None (Some (elem info))) tname
             = Some \<lparr>entity_macro = ''elink'', entity_category = ''flags'',
                      entity_generates = None, entity_elem = Some (elem info)\<rparr>"
    by (simp add: addEntity_same)
next
  fix n e
  assume a: "entities (addEntity db tname ''elink'' ''flags'' None (Some (elem info))) n = Some e
                 \<and> entities db n \<noteq> Some e"
  then have n: "n = tname" by (metis addEntity_other)
  with a have e: "e = \<lparr>entity_macro = ''elink'', entity_category = ''flags'',
                      entity_generates = None, entity_elem = Some (elem info)\<rparr>"
    by (auto simp: addEntity_same split: option.splits if_splits)
  show "n = tname" by (rule n)
  show "entity_macro e = ''elink''" by (simp add: e)
  show "entity_category e = ''flags''" by (simp add: e)
  show "entity_macro e \<noteq> ''tlink''" by (simp add: e)
next
  assume "elem_get (elem info) ''category'' \<noteq> Some ''bitmask''"
  then show "handleType super_handleType db tname info requires
          = super_handleType db tname info requires"
    by (simp add: handleType_def)
next
  show "''elink'' \<in> set (macros_of_category (populateMacros db) ''flags'')"
    by (simp add: macros_of_category_def populateMacros_def addMacro_def)
next
  assume "macros_of_category db ''flags'' = []"
  then show "macros_of_category (populateMacros db) ''flags'' = [''elink'']"
    by (simp add: macros_of_category_def populateMacros_def addMacro_def)
qed

text \<open>
  On the empty database, with a superclass method that raises: the bitmask type
  XrSwapchainUsageFlags becomes an elink entity of category flags, the struct XrPosef goes
  to the superclass method, and elink is the one macro of the category flags.
\<close>

theorem handleType_bitmask_as_flags_witness:
  "elem_get (elem \<lparr>elem = \<lparr>attrib = [(''name'', ''XrSwapchainUsageFlags''),
                                      (''category'', ''bitmask'')]\<rparr>\<rparr>)
       ''category'' = Some ''bitmask''
   \<and> entities (\<lparr>entities = Map.empty, registrations = [], conflicts = []\<rparr>)
        ''XrSwapchainUsageFlags'' = None
   \<and> handleType (\<lambda>db tname info requires. Inl ValueError)
        \<lparr>entities = Map.empty, registrations = [], conflicts = []\<rparr> ''XrSwapchainUsageFlags''
        \<lparr>elem = \<lparr>attrib = [(''name'', ''XrSwapchainUsageFlags''), (''category'', ''bitmask'')]\<rparr>\<rparr>
        (None :: string option)
      = Inr \<lparr>entities = [''XrSwapchainUsageFlags'' \<mapsto>
                \<lparr>entity_macro = ''elink'', entity_category = ''flags'', entity_generates = None,
                 entity_elem = Some \<lparr>attrib = [(''name'', ''XrSwapchainUsageFlags''),
                                                (''category'', ''bitmask'')]\<rparr>\<rparr>],
              registrations = [], conflicts = []\<rparr>
   \<and> elem_get (elem \<lparr>elem = \<lparr>attrib = [(''name'', ''XrPosef''), (''category'', ''struct'')]\<rparr>\<rparr>)
       ''category'' \<noteq> Some ''bitmask''
   \<and> handleType (\<lambda>db tname info requires. Inl ValueError)
        \<lparr>entities = Map.empty, registrations = [], conflicts = []\<rparr> ''XrPosef''
        \<lparr>elem = \<lparr>attrib = [(''name'', ''XrPosef''), (''category'', ''struct'')]\<rparr>\<rparr>
        (None :: string option)
      = Inl ValueError
   \<and> macros_of_category \<lparr>entities = Map.empty, registrations = [], conflicts = []\<rparr> ''flags'' = []
   \<and> macros_of_category
        (populateMacros \<lparr>entities = Map.empty, registrations = [], conflicts = []\<rparr>) ''flags''
      = [''elink'']"
proof -
  let ?db = "\<lparr>entities = Map.empty, registrations = [], conflicts = []\<rparr>"
  let ?bm = "\<lparr>elem = \<lparr>attrib = [(''name'', ''XrSwapchainUsageFlags''),
                                  (''category'', ''bitmask'')]\<rparr>\<rparr>"
  let ?st = "\<lparr>elem = \<lparr>attrib = [(''name'', ''XrPosef''), (''category'', ''struct'')]\<rparr>\<rparr>"
  let ?sup = "\<lambda>(db :: EntityDatabase) (tname :: string) (info :: TypeInfo)
                (requires :: string option). (Inl ValueError :: py_error + EntityDatabase)"
  have a: "elem_get (elem ?bm) ''category'' = Some ''bitmask''" by (simp add: elem_get_def)
  have b: "elem_get (elem ?st) ''category'' \<noteq> Some ''bitmask''" by (simp add: elem_get_def)
  have f: "entities ?db ''XrSwapchainUsageFlags'' = None" by simp
  have m: "macros_of_category ?db ''flags'' = []" by (simp add: macros_of_category_def)
  note t = handleType_bitmask_as_flags [of ?bm ?sup ?db "''XrSwapchainUsageFlags''" None]
  have c: "handleType ?sup ?db ''XrSwapchainUsageFlags'' ?bm None
      = Inr \<lparr>entities = [''XrSwapchainUsageFlags'' \<mapsto>
                \<lparr>entity_macro = ''elink'', entity_category = ''flags'', entity_generates = None,
                 entity_elem = Some \<lparr>attrib = [(''name'', ''XrSwapchainUsageFlags''),
                                                (''category'', ''bitmask'')]\<rparr>\<rparr>],
              registrations = [], conflicts = []\<rparr>"
    using t [THEN conjunct1, THEN mp, OF a, THEN conjunct1] by (simp add: addEntity_def)
  have d: "handleType ?sup ?db ''XrPosef'' ?st None = Inl ValueError"
    using handleType_bitmask_as_flags [of ?st ?sup ?db "''XrPosef''" None, THEN conjunct2,
        THEN conjunct1, THEN mp, OF b]
    by simp
  have e: "macros_of_category (populateMacros ?db) ''flags'' = [''elink'']"
    using t [THEN conjunct2, THEN conjunct2, THEN conjunct2, THEN mp, OF m] .
  from a b c d e f m show ?thesis by blast
qed

subsection \<open>Opening a block\<close>

text \<open>
  C1: when \<open>processBlockOpen\<close> is called for a REF\_PAGE\_LIKE block and
  \<open>prev_line_ref_page_tag\<close> is not set, it returns normally (whatever the superclass
  method would do), the diagnostics grow by exactly one, of kind REFPAGE\_BLOCK, and the
  stack grows by exactly one block, whose refpage is the placeholder
  ?missing-refpage-tag?. The placeholder is no system type and no extra define, and it
  differs from every name that has no question mark in it.
\<close>

theorem processBlockOpen_untagged_recovery:
  "prev_line_ref_page_tag s = None \<Longrightarrow>
   (\<exists>s'. processBlockOpen super_processBlockOpen s REF_PAGE_LIKE ctx delim = Inr s'
      \<and> messages s' = messages s @
           [\<lparr>message_id = REFPAGE_BLOCK, severity = ERROR, location = lineNum s,
             message = refpage_block_message, msg_group = None\<rparr>]
      \<and> block_stack s' = block_stack s @
           [\<lparr>block_type = REF_PAGE_LIKE, delimiter = delim, block_context = ctx,
             refpage = Some missing_refpage_tag\<rparr>])
   \<and> missing_refpage_tag = ''?missing-refpage-tag?''
   \<and> missing_refpage_tag \<notin> SYSTEM_TYPES
   \<and> missing_refpage_tag \<notin> set EXTRA_DEFINES
   \<and> (CHR ''?'' \<notin> set entity \<longrightarrow> entity \<noteq> missing_refpage_tag)"
  by (auto simp: processBlockOpen_def error_def pushBlock_def Let_def missing_refpage_tag_def
      SYSTEM_TYPES_def EXTRA_DEFINES_def)

text \<open>
  A fresh scan state at line 7, no tag on the previous line, and a line "--": one
  diagnostic, one block for the placeholder.
\<close>

theorem processBlockOpen_untagged_recovery_witness:
  "prev_line_ref_page_tag
     \<lparr>current_ref_page = None, in_ref_page = False, prev_line_ref_page_tag = (None :: unit option),
      block_stack = [], messages = [], lineNum = 7\<rparr> = None
   \<and> processBlockOpen MacroCheckerFile_processBlockOpen
       \<lparr>current_ref_page = None, in_ref_page = False, prev_line_ref_page_tag = (None :: unit option),
        block_stack = [], messages = [], lineNum = 7\<rparr> REF_PAGE_LIKE None (Some ''--'')
     = Inr \<lparr>current_ref_page = Some ''?missing-refpage-tag?'', in_ref_page = True,
            prev_line_ref_page_tag = None,
            block_stack = [\<lparr>block_type = REF_PAGE_LIKE, delimiter = Some ''--'',
                            block_context = None, refpage = Some ''?missing-refpage-tag?''\<rparr>],
            messages = [\<lparr>message_id = REFPAGE_BLOCK, severity = ERROR, location = 7,
                          message = refpage_block_message, msg_group = None\<rparr>],
            lineNum = 7\<rparr>
   \<and> CHR ''?'' \<notin> set ''XrPosef'' \<and> ''XrPosef'' \<noteq> missing_refpage_tag"
proof -
  let ?s = "\<lparr>current_ref_page = None, in_ref_page = False,
      prev_line_ref_page_tag = (None :: unit option),
      block_stack = [], messages = [], lineNum = 7\<rparr>"
  have a: "prev_line_ref_page_tag ?s = None" by simp
  have q: "CHR ''?'' \<notin> set ''XrPosef''" by simp
  note t = processBlockOpen_untagged_recovery
    [of ?s MacroCheckerFile_processBlockOpen None "Some ''--''" "''XrPosef''", OF a]
  have n: "''XrPosef'' \<noteq> missing_refpage_tag"
    using t [THEN conjunct2, THEN conjunct2, THEN conjunct2, THEN conjunct2, THEN mp, OF q] .
  have r: "processBlockOpen MacroCheckerFile_processBlockOpen ?s REF_PAGE_LIKE None (Some ''--'')
     = Inr \<lparr>current_ref_page = Some ''?missing-refpage-tag?'', in_ref_page = True,
            prev_line_ref_page_tag = None,
            block_stack = [\<lparr>block_type = REF_PAGE_LIKE, delimiter = Some ''--'',
                            block_context = None, refpage = Some ''?missing-refpage-tag?''\<rparr>],
            messages = [\<lparr>message_id = REFPAGE_BLOCK, severity = ERROR, location = 7,
                          message = refpage_block_message, msg_group = None\<rparr>],
            lineNum = 7\<rparr>"
    by (simp add: processBlockOpen_def error_def pushBlock_def Let_def missing_refpage_tag_def)
  from a q n r show ?thesis by blast
qed





text \<open>
  C7: the include-name mapping of this registry family is the identity: for every entity
  name, \<open>computeExpectedRefPageFromInclude\<close> returns the name it was given.
\<close>

theorem computeExpectedRefPageFromInclude_identity:
  "computeExpectedRefPageFromInclude s entity = entity"
  by (simp add: computeExpectedRefPageFromInclude_def)

subsection \<open>The enabled diagnostics\<close>

text \<open>
  C4: whatever else the enumeration holds, the main program's available set is all of
  MessageId without LEGACY, and its default enabled set is the available set without
  REFPAGE\_MISSING: all of MessageId minus LEGACY minus REFPAGE\_MISSING. LEGACY is not
  in the available set, so no selection of kinds from the available set enables it.
\<close>

theorem default_enabled_messages_computed:
  "available_messages others = Inr (set (MessageId_members others) - {LEGACY})
   \<and> default_enabled_messages others
       = Inr (set (MessageId_members others) - {LEGACY} - {REFPAGE_MISSING})
   \<and> LEGACY \<notin> set (MessageId_members others) - {LEGACY}
   \<and> (\<forall>enabled. enabled \<subseteq> set (MessageId_members others) - {LEGACY} \<longrightarrow> LEGACY \<notin> enabled)"
  by (auto simp: default_enabled_messages_def available_messages_def MessageId_members_def
      DEFAULT_DISABLED_MESSAGES_def)

text \<open>
  With one more kind, BAD\_ENTITY, in the enumeration: the default set is REFPAGE\_BLOCK
  and BAD\_ENTITY, and an operator who turns REFPAGE\_MISSING on selects from the
  available set and does not get LEGACY.
\<close>

theorem default_enabled_messages_computed_witness:
  "default_enabled_messages [''BAD_ENTITY''] = Inr {REFPAGE_BLOCK, OTHER ''BAD_ENTITY''}
   \<and> {REFPAGE_MISSING, REFPAGE_BLOCK} \<subseteq> set (MessageId_members [''BAD_ENTITY'']) - {LEGACY}
   \<and> LEGACY \<notin> {REFPAGE_MISSING, REFPAGE_BLOCK}"
  using default_enabled_messages_computed [of "[''BAD_ENTITY'']"]
  by (auto simp: MessageId_members_def)

section \<open>Properties of check-offsets.py\<close>

subsection \<open>Searching and slicing a list of lines\<close>

lemma try_bind_Inr: "try_bind r f = Inr y \<longleftrightarrow> (\<exists>x. r = Inr x \<and> f x = Inr y)"
  by (cases r) (simp_all add: try_bind_def)

lemma first_index_absent: "x \<notin> set xs \<Longrightarrow> first_index x xs = None"
  by (induction xs) auto

lemma first_index_append:
  "x \<notin> set pre \<Longrightarrow> first_index x (pre @ x # rest) = Some (length pre)"
  by (induction pre) auto

lemma list_index_heading:
  "h \<notin> set pre \<Longrightarrow> list_index (pre @ h # rest) h 0 = Inr (length pre)"
  by (simp add: list_index_def first_index_append)

lemma list_index_blank:
  "b \<notin> set sec \<Longrightarrow>
   list_index (pre @ h # sec @ b # post) b (length pre + 1) = Inr (length pre + 1 + length sec)"
  by (simp add: list_index_def first_index_append)

lemma list_index_no_blank:
  "b \<notin> set sec \<Longrightarrow> list_index (pre @ h # sec) b (length pre + 1) = Inl ValueError"
  by (simp add: list_index_def first_index_absent)

lemma py_slice_section:
  "py_slice (pre @ h # sec @ b # post) (int (length pre) + 1)
     (Some (int (length pre + 1 + length sec) - 1)) = take (length sec - 1) sec"
  by (simp add: py_slice_def slice_bound_def Let_def min_def nat_add_distrib)

lemma py_slice_to_end:
  "py_slice (pre @ h # sec) (int (length pre) + 1) None = sec"
  by (simp add: py_slice_def slice_bound_def Let_def min_def nat_add_distrib)

subsection \<open>The keys of the parsed dictionary\<close>

lemma parse_reflection_line_name:
  "parse_reflection_line l = Inr d \<Longrightarrow> name d = line_name l"
  by (auto simp: parse_reflection_line_def line_name_def try_bind_Inr split: prod.splits)

lemma dom_parse_section:
  "parse_section ls m = Inr u \<Longrightarrow> dom u = dom m \<union> line_name ` set ls"
proof (induction ls arbitrary: m)
  case Nil
  then show ?case by simp
next
  case (Cons l ls)
  from Cons.prems obtain d where d: "parse_reflection_line l = Inr d"
    and rest: "parse_section ls (m(name d \<mapsto> d)) = Inr u"
    by (auto split: sum.splits)
  from Cons.IH [OF rest] parse_reflection_line_name [OF d] show ?case by auto
qed

subsection \<open>The slice of each function\<close>

lemma compile_parses_all_but_last:
  assumes "''Uniform reflection:'' \<notin> set pre" and "'''' \<notin> set sec"
  shows "compile_and_get_reflection_data (pre @ ''Uniform reflection:'' # sec @ '''' # post)
     = try_bind (parse_section (take (length sec - 1) sec) Map.empty)
         (\<lambda>u. Inr \<lparr>uniforms = u\<rparr>)"
proof -
  let ?L = "pre @ ''Uniform reflection:'' # sec @ '''' # post"
  have 1: "list_index ?L ''Uniform reflection:'' 0 = Inr (length pre)"
    using assms(1) by (rule list_index_heading)
  have 2: "list_index ?L '''' (length pre + 1) = Inr (length pre + 1 + length sec)"
    using assms(2) by (rule list_index_blank)
  have 3: "py_slice ?L (int (length pre) + 1) (Some (int (length pre + 1 + length sec) - 1))
            = take (length sec - 1) sec"
    by (rule py_slice_section)
  show ?thesis
    by (simp only: compile_and_get_reflection_data_def 1 2 3 try_bind_def sum.case Let_def)
qed

lemma process_parses_all_but_last:
  assumes "heading \<notin> set pre" and "'''' \<notin> set sec"
  shows "process_reflection_data_section (pre @ heading # sec @ '''' # post) heading
     = parse_section (take (length sec - 1) sec) Map.empty"
proof -
  let ?L = "pre @ heading # sec @ '''' # post"
  have 1: "list_index ?L heading 0 = Inr (length pre)"
    using assms(1) by (rule list_index_heading)
  have 2: "list_index ?L '''' (length pre + 1) = Inr (length pre + 1 + length sec)"
    using assms(2) by (rule list_index_blank)
  have 3: "py_slice ?L (int (length pre) + 1) (Some (int (length pre + 1 + length sec) - 1))
            = take (length sec - 1) sec"
    by (rule py_slice_section)
  show ?thesis
    by (simp only: process_reflection_data_section_def 1 2 3 try_bind_def sum.case option.case
        Let_def)
qed

lemma process_parses_to_end:
  assumes "heading \<notin> set pre" and "'''' \<notin> set sec"
  shows "process_reflection_data_section (pre @ heading # sec) heading
     = parse_section sec Map.empty"
proof -
  let ?L = "pre @ heading # sec"
  have 1: "list_index ?L heading 0 = Inr (length pre)"
    using assms(1) by (rule list_index_heading)
  have 2: "list_index ?L '''' (length pre + 1) = Inl ValueError"
    using assms(2) by (rule list_index_no_blank)
  have 3: "py_slice ?L (int (length pre) + 1) None = sec"
    by (rule py_slice_to_end)
  show ?thesis
    by (simp only: process_reflection_data_section_def 1 2 3 try_bind_def sum.case option.case
        py_error.case Let_def)
qed

text \<open>
  C10: let the first line "Uniform reflection:" of the output be followed by the
  non-empty lines \<open>sec\<close> (n of them) and then an empty line. Then
  \<open>compile_and_get_reflection_data\<close> parses exactly the first n - 1 lines of \<open>sec\<close>:
  its result is that of the parsing loop on them, the keys of the returned dictionary are
  the names on those lines, and the name on the last line of \<open>sec\<close> is no key of it
  (unless an earlier line has the same name). \<open>process_reflection_data_section\<close> does the
  same for its heading when an empty line ends the section, and parses all of \<open>sec\<close> when
  the section runs to the end of the output.
\<close>

theorem reflection_section_drops_last_line:
  assumes "'''' \<notin> set sec"
  shows
    "(''Uniform reflection:'' \<notin> set pre \<longrightarrow>
        compile_and_get_reflection_data (pre @ ''Uniform reflection:'' # sec @ '''' # post)
          = try_bind (parse_section (take (length sec - 1) sec) Map.empty)
              (\<lambda>u. Inr \<lparr>uniforms = u\<rparr>))
     \<and> (''Uniform reflection:'' \<notin> set pre
        \<and> compile_and_get_reflection_data (pre @ ''Uniform reflection:'' # sec @ '''' # post)
            = Inr r \<longrightarrow>
          dom (uniforms r) = line_name ` set (take (length sec - 1) sec)
          \<and> (sec \<noteq> [] \<and> line_name (last sec) \<notin> line_name ` set (take (length sec - 1) sec)
               \<longrightarrow> uniforms r (line_name (last sec)) = None))
     \<and> (heading \<notin> set pre \<longrightarrow>
          process_reflection_data_section (pre @ heading # sec @ '''' # post) heading
            = parse_section (take (length sec - 1) sec) Map.empty)
     \<and> (heading \<notin> set pre \<longrightarrow>
          process_reflection_data_section (pre @ heading # sec) heading
            = parse_section sec Map.empty)"
proof (intro conjI impI)
  assume "''Uniform reflection:'' \<notin> set pre"
  then show "compile_and_get_reflection_data (pre @ ''Uniform reflection:'' # sec @ '''' # post)
          = try_bind (parse_section (take (length sec - 1) sec) Map.empty)
              (\<lambda>u. Inr \<lparr>uniforms = u\<rparr>)"
    using assms by (rule compile_parses_all_but_last)
next
  assume a: "''Uniform reflection:'' \<notin> set pre
        \<and> compile_and_get_reflection_data (pre @ ''Uniform reflection:'' # sec @ '''' # post)
            = Inr r"
  then have h: "''Uniform reflection:'' \<notin> set pre"
    and c: "compile_and_get_reflection_data (pre @ ''Uniform reflection:'' # sec @ '''' # post)
              = Inr r"
    by simp_all
  have e: "compile_and_get_reflection_data (pre @ ''Uniform reflection:'' # sec @ '''' # post)
          = try_bind (parse_section (take (length sec - 1) sec) Map.empty)
              (\<lambda>u. Inr \<lparr>uniforms = u\<rparr>)"
    using h assms by (rule compile_parses_all_but_last)
  have "try_bind (parse_section (take (length sec - 1) sec) Map.empty)
              (\<lambda>u. Inr \<lparr>uniforms = u\<rparr>) = Inr r"
    using e c by (rule trans [OF sym])
  then obtain u where u: "parse_section (take (length sec - 1) sec) Map.empty = Inr u"
    and r: "r = \<lparr>uniforms = u\<rparr>"
    by (auto simp: try_bind_Inr)
  from dom_parse_section [OF u] r
  show d: "dom (uniforms r) = line_name ` set (take (length sec - 1) sec)"
    by simp
  assume "sec \<noteq> [] \<and> line_name (last sec) \<notin> line_name ` set (take (length sec - 1) sec)"
  with d show "uniforms r (line_name (last sec)) = None"
    by (auto simp: dom_def)
next
  assume "heading \<notin> set pre"
  then show "process_reflection_data_section (pre @ heading # sec @ '''' # post) heading
            = parse_section (take (length sec - 1) sec) Map.empty"
    using assms by (rule process_parses_all_but_last)
next
  assume "heading \<notin> set pre"
  then show "process_reflection_data_section (pre @ heading # sec) heading
            = parse_section sec Map.empty"
    using assms by (rule process_parses_to_end)
qed

text \<open>
  An output with three uniforms before the empty line: the dictionary holds EyePosition
  (offset 64) and LightDirection (offset 80), and has no entry for NumSpecularMipLevels,
  the line before the empty one. When the same three lines end the output, the section
  function parses all three.
\<close>

theorem reflection_section_drops_last_line_witness:
  "'''' \<notin> set [''type_SceneBuffer.EyePosition: offset 64, type 8b51, size 1, index 0, binding -1, stages 16'',
                ''type_SceneBuffer.LightDirection: offset 80, type 8b51, size 1, index 0, binding -1, stages 16'',
                ''type_SceneBuffer.NumSpecularMipLevels: offset 108, type 1405, size 1, index 0, binding -1, stages 16'']
   \<and> ''Uniform reflection:'' \<notin> set [''PbrPixelShader_glsl.frag'']
   \<and> (\<exists>r. compile_and_get_reflection_data
             [''PbrPixelShader_glsl.frag'', ''Uniform reflection:'',
              ''type_SceneBuffer.EyePosition: offset 64, type 8b51, size 1, index 0, binding -1, stages 16'',
              ''type_SceneBuffer.LightDirection: offset 80, type 8b51, size 1, index 0, binding -1, stages 16'',
              ''type_SceneBuffer.NumSpecularMipLevels: offset 108, type 1405, size 1, index 0, binding -1, stages 16'',
              '''', ''Uniform block reflection:''] = Inr r
          \<and> map_option offset (uniforms r ''type_SceneBuffer.EyePosition'') = Some 64
          \<and> map_option offset (uniforms r ''type_SceneBuffer.LightDirection'') = Some 80
          \<and> uniforms r ''type_SceneBuffer.NumSpecularMipLevels'' = None)
   \<and> (\<exists>u. process_reflection_data_section
             [''PbrPixelShader_glsl.frag'', ''Uniform reflection:'',
              ''type_SceneBuffer.EyePosition: offset 64, type 8b51, size 1, index 0, binding -1, stages 16'',
              ''type_SceneBuffer.LightDirection: offset 80, type 8b51, size 1, index 0, binding -1, stages 16'',
              ''type_SceneBuffer.NumSpecularMipLevels: offset 108, type 1405, size 1, index 0, binding -1, stages 16'']
             ''Uniform reflection:'' = Inr u
          \<and> map_option offset (u ''type_SceneBuffer.NumSpecularMipLevels'') = Some 108)"
proof -
  let ?l1 = "''type_SceneBuffer.EyePosition: offset 64, type 8b51, size 1, index 0, binding -1, stages 16''"
  let ?l2 = "''type_SceneBuffer.LightDirection: offset 80, type 8b51, size 1, index 0, binding -1, stages 16''"
  let ?l3 = "''type_SceneBuffer.NumSpecularMipLevels: offset 108, type 1405, size 1, index 0, binding -1, stages 16''"
  let ?pre = "[''PbrPixelShader_glsl.frag'']"
  let ?sec = "[?l1, ?l2, ?l3]"
  let ?d1 = "\<lparr>name = ''type_SceneBuffer.EyePosition'', offset = 64, data_type = 35665, size' = 1,
              index = 0, binding = - 1, stages = 16, counter = None, num_members = None,
              array_stride = None, top_level_array_stride = None\<rparr>"
  let ?d2 = "\<lparr>name = ''type_SceneBuffer.LightDirection'', offset = 80, data_type = 35665, size' = 1,
              index = 0, binding = - 1, stages = 16, counter = None, num_members = None,
              array_stride = None, top_level_array_stride = None\<rparr>"
  let ?d3 = "\<lparr>name = ''type_SceneBuffer.NumSpecularMipLevels'', offset = 108, data_type = 5125,
              size' = 1, index = 0, binding = - 1, stages = 16, counter = None,
              num_members = None, array_stride = None, top_level_array_stride = None\<rparr>"
  have b: "'''' \<notin> set ?sec" by simp
  have h: "''Uniform reflection:'' \<notin> set ?pre" by simp
  have p1: "parse_reflection_line ?l1 = Inr ?d1"
    by (simp add: parse_reflection_line_def strip_def isspace_def str_partition_def
        startswith_def str_split.simps try_bind_def required_int_def optional_int_def
        py_int_def digit_def digit_value_def Let_def int_max_str_digits_def)
  have p2: "parse_reflection_line ?l2 = Inr ?d2"
    by (simp add: parse_reflection_line_def strip_def isspace_def str_partition_def
        startswith_def str_split.simps try_bind_def required_int_def optional_int_def
        py_int_def digit_def digit_value_def Let_def int_max_str_digits_def)
  have p3: "parse_reflection_line ?l3 = Inr ?d3"
    by (simp add: parse_reflection_line_def strip_def isspace_def str_partition_def
        startswith_def str_split.simps try_bind_def required_int_def optional_int_def
        py_int_def digit_def digit_value_def Let_def int_max_str_digits_def)
  note t = reflection_section_drops_last_line [OF b, of ?pre "[''Uniform block reflection:'']"]
  have c: "compile_and_get_reflection_data
             (?pre @ ''Uniform reflection:'' # ?sec @ '''' # [''Uniform block reflection:''])
           = Inr \<lparr>uniforms = [''type_SceneBuffer.EyePosition'' \<mapsto> ?d1,
                              ''type_SceneBuffer.LightDirection'' \<mapsto> ?d2]\<rparr>"
    using t [THEN conjunct1, THEN mp, OF h] by (simp add: p1 p2 try_bind_def)
  have e: "process_reflection_data_section (?pre @ ''Uniform reflection:'' # ?sec)
             ''Uniform reflection:''
           = Inr [''type_SceneBuffer.EyePosition'' \<mapsto> ?d1,
                  ''type_SceneBuffer.LightDirection'' \<mapsto> ?d2,
                  ''type_SceneBuffer.NumSpecularMipLevels'' \<mapsto> ?d3]"
    using t [of _ "''Uniform reflection:''", THEN conjunct2, THEN conjunct2, THEN conjunct2,
        THEN mp, OF h]
    by (simp add: p1 p2 p3)
  from c have c': "\<exists>r. compile_and_get_reflection_data
             (?pre @ ''Uniform reflection:'' # ?sec @ '''' # [''Uniform block reflection:''])
           = Inr r
          \<and> map_option offset (uniforms r ''type_SceneBuffer.EyePosition'') = Some 64
          \<and> map_option offset (uniforms r ''type_SceneBuffer.LightDirection'') = Some 80
          \<and> uniforms r ''type_SceneBuffer.NumSpecularMipLevels'' = None"
    by simp
  from e have e': "\<exists>u. process_reflection_data_section (?pre @ ''Uniform reflection:'' # ?sec)
             ''Uniform reflection:'' = Inr u
          \<and> map_option offset (u ''type_SceneBuffer.NumSpecularMipLevels'') = Some 108"
    by simp
  from b h c' e' show ?thesis by simp
qed

end
